theory Spec2Isabelle
  imports Main "HOL-Library.AList"
begin

section \<open>The backend API client of Growzilla Beta (services/api)\<close>

text \<open>
  A shallow embedding of the TypeScript module that talks to the FastAPI backend:
  \<^verbatim>\<open>fetchWithTimeout\<close>, \<^verbatim>\<open>sleep\<close>, the class \<^verbatim>\<open>ApiClient\<close> with
  \<^verbatim>\<open>checkHealth\<close>, \<^verbatim>\<open>request\<close>, \<^verbatim>\<open>getShop\<close>, \<^verbatim>\<open>registerShop\<close>,
  \<^verbatim>\<open>getInsights\<close>, and the helper \<^verbatim>\<open>resolveShopId\<close>.

  Promises are modelled by their settled value: a computation returns a pair of its
  completion (a value, or the thrown JavaScript value) and the state after it. The
  state holds the module-level \<^verbatim>\<open>healthCache\<close>, the clock read by \<^verbatim>\<open>Date.now()\<close>,
  and two logs: the calls of \<^verbatim>\<open>fetch\<close> and the delays passed to \<^verbatim>\<open>sleep\<close>.
  What the network answers is a parameter (the environment): the outcome of the
  n-th call of \<^verbatim>\<open>fetch\<close> is arbitrary. Console output is not modelled.
\<close>

subsection \<open>JavaScript values\<close>

text \<open>
  The result of \<^verbatim>\<open>response.json()\<close> is an untyped parsed JSON value. An object is the list
  of its (distinct) keys with their values. This module observes a number in two ways only:
  \<^verbatim>\<open>String(x)\<close> and truthiness. So a number is given by its string form, what
  \<^verbatim>\<open>String(x)\<close> prints for it: \<^verbatim>\<open>405\<close>, \<^verbatim>\<open>0.5\<close>, \<^verbatim>\<open>1e+21\<close>. The numbers that are
  falsy are 0 and -0, which both print as \<^verbatim>\<open>0\<close>, and NaN (which no JSON text parses to).
\<close>

datatype json =
    JNull
  | JBool bool
  | JNum string
  | JStr string
  | JArr "json list"
  | JObj "(string \<times> json) list"

text \<open>
  A thrown value: an object for which \<^verbatim>\<open>error instanceof Error\<close> holds, with its
  \<^verbatim>\<open>name\<close> and \<^verbatim>\<open>message\<close>, or any other value.
\<close>

datatype js_thrown =
    ErrorObj string string
  | NonError string

datatype 'a completion = Returned 'a | Thrown js_thrown

text \<open>
  Reading a property of a parsed JSON value: \<^verbatim>\<open>null.p\<close> throws a TypeError (the
  message is V8's); a primitive or an array has none of the properties this module reads
  (\<^verbatim>\<open>detail\<close>, \<^verbatim>\<open>status\<close>, \<^verbatim>\<open>version\<close>, \<^verbatim>\<open>id\<close>), so the value is
  \<^verbatim>\<open>undefined\<close>, modelled as \<open>None\<close>.
\<close>

definition null_TypeError :: "string \<Rightarrow> js_thrown" where
  "null_TypeError p =
     ErrorObj ''TypeError''
       (''Cannot read properties of null (reading '' @ [CHR 0x27] @ p @ [CHR 0x27] @ '')'')"

fun get_prop :: "json \<Rightarrow> string \<Rightarrow> js_thrown + json option" where
  "get_prop JNull p = Inl (null_TypeError p)"
| "get_prop (JObj kvs) p = Inr (map_of kvs p)"
| "get_prop _ p = Inr None"

text \<open>Truthiness of a JSON value, and of a possibly undefined one.\<close>

fun truthy_json :: "json \<Rightarrow> bool" where
  "truthy_json JNull = False"
| "truthy_json (JBool b) = b"
| "truthy_json (JNum s) = (s \<noteq> ''0'' \<and> s \<noteq> ''NaN'')"
| "truthy_json (JStr s) = (s \<noteq> [])"
| "truthy_json (JArr _) = True"
| "truthy_json (JObj _) = True"


text \<open>The operator \<^verbatim>\<open>a || b\<close> with a possibly undefined left operand.\<close>

fun js_or :: "json option \<Rightarrow> json \<Rightarrow> json" where
  "js_or None b = b"
| "js_or (Some a) b = (if truthy_json a then a else b)"

subsection \<open>Conversion to strings\<close>

definition digit_char :: "nat \<Rightarrow> char" where
  "digit_char d = ''0123456789'' ! d"

text \<open>
  \<^verbatim>\<open>String(n)\<close> for a natural number and for an integer \<open>n\<close> in the safe range
  (up to \<open>2^53 - 1\<close> in absolute value), where JavaScript prints the decimal digits. It is
  applied to HTTP status codes and to the page numbers of \<^verbatim>\<open>getInsights\<close>.
\<close>

function String_nat :: "nat \<Rightarrow> string" where
  "String_nat n =
     (if n < 10 then [digit_char n] else String_nat (n div 10) @ [digit_char (n mod 10)])"
  by pat_completeness auto
termination
  by (relation "measure (\<lambda>n. n)") auto

declare String_nat.simps [simp del]

definition String_int :: "int \<Rightarrow> string" where
  "String_int i = (if i < 0 then CHR ''-'' # String_nat (nat (- i)) else String_nat (nat i))"

fun join :: "string \<Rightarrow> string list \<Rightarrow> string" where
  "join sep [] = []"
| "join sep [x] = x"
| "join sep (x # y # ys) = x @ sep @ join sep (y # ys)"

text \<open>
  \<^verbatim>\<open>String(v)\<close>, as \<^verbatim>\<open>new Error(v)\<close> applies it to its argument: a number prints as
  its string form, an object as \<^verbatim>\<open>[object Object]\<close>, an array as its elements joined
  by commas, with \<^verbatim>\<open>null\<close> elements printed as the empty string.
\<close>

fun ToString :: "json \<Rightarrow> string" where
  "ToString JNull = ''null''"
| "ToString (JBool b) = (if b then ''true'' else ''false'')"
| "ToString (JNum s) = s"
| "ToString (JStr s) = s"
| "ToString (JArr xs) = join '','' (map (\<lambda>x. if x = JNull then [] else ToString x) xs)"
| "ToString (JObj _) = ''[object Object]''"

definition new_Error :: "json \<Rightarrow> js_thrown" where
  "new_Error v = ErrorObj ''Error'' (ToString v)"

text \<open>\<^verbatim>\<open>s.includes(sub)\<close>: \<open>sub\<close> occurs in \<open>s\<close> as a contiguous substring.\<close>

fun str_includes :: "string \<Rightarrow> string \<Rightarrow> bool" where
  "str_includes [] sub = (sub = [])"
| "str_includes (c # cs) sub = (take (length sub) (c # cs) = sub \<or> str_includes cs sub)"

subsection \<open>Configuration constants\<close>

definition REQUEST_TIMEOUT_MS :: nat where
  "REQUEST_TIMEOUT_MS = 10000"

definition MAX_RETRIES :: nat where
  "MAX_RETRIES = 3"

definition RETRY_DELAYS :: "nat list" where
  "RETRY_DELAYS = [1000, 2000, 4000]"

definition HEALTH_CHECK_CACHE_MS :: int where
  "HEALTH_CHECK_CACHE_MS = 60000"

subsection \<open>State, environment and the transport\<close>

record ApiConfig =
  shopId :: string
  accessToken :: string

record ApiClient =
  baseUrl :: string
  config :: "ApiConfig option"

record HealthStatus =
  healthy :: bool
  version :: json
  timestamp :: int
  error :: "string option"

text \<open>
  \<^verbatim>\<open>RequestInit\<close>, with the fields this module sets (\<open>http_method\<close> is its
  \<^verbatim>\<open>method\<close> field). The body is the JSON value that
  \<^verbatim>\<open>JSON.stringify\<close> serialises.
\<close>

record RequestInit =
  http_method :: "string option"
  headers :: "(string \<times> string) list"
  body :: "json option"

record fetch_call =
  url :: string
  init :: RequestInit
  timeoutMs :: nat

record Response =
  status :: nat
  json_result :: "js_thrown + json"

datatype fetch_outcome = Rejects js_thrown | Resolves Response

record environment =
  fetch_result :: "nat \<Rightarrow> fetch_outcome"
  fetch_elapsed :: "nat \<Rightarrow> nat"
  SCOPES :: "string option"

record state =
  healthCache :: "HealthStatus option"
  clock :: int
  fetches :: "fetch_call list"
  sleeps :: "nat list"

definition ok :: "Response \<Rightarrow> bool" where
  "ok response = (200 \<le> status response \<and> status response \<le> 299)"

text \<open>
  \<^verbatim>\<open>fetchWithTimeout\<close>: one call of \<^verbatim>\<open>fetch\<close>, bound to an abort timer. The call is
  logged; its outcome (a response, or a rejection such as the timer's AbortError) and
  the time it takes come from the environment.
\<close>

definition fetchWithTimeout ::
  "environment \<Rightarrow> string \<Rightarrow> RequestInit \<Rightarrow> nat \<Rightarrow> state \<Rightarrow> fetch_outcome \<times> state" where
  "fetchWithTimeout env u options ms st =
     (let n = length (fetches st) in
      (fetch_result env n,
       st\<lparr>fetches := fetches st @ [\<lparr>url = u, init = options, timeoutMs = ms\<rparr>],
          clock := clock st + int (fetch_elapsed env n)\<rparr>))"

definition sleep :: "nat \<Rightarrow> state \<Rightarrow> state" where
  "sleep ms st = st\<lparr>sleeps := sleeps st @ [ms], clock := clock st + int ms\<rparr>"

text \<open>Object spread \<^verbatim>\<open>{...a, ...b}\<close> on string-keyed objects.\<close>

definition spread :: "(string \<times> string) list \<Rightarrow> (string \<times> string) list \<Rightarrow> (string \<times> string) list" where
  "spread a b = fold (\<lambda>(k, v). AList.update k v) b a"

definition getHeaders :: "ApiClient \<Rightarrow> (string \<times> string) list" where
  "getHeaders c =
     (case config c of
        None \<Rightarrow> [(''Content-Type'', ''application/json'')]
      | Some cfg \<Rightarrow>
          if accessToken cfg \<noteq> [] then
            [(''Content-Type'', ''application/json''),
             (''Authorization'', ''Bearer '' @ accessToken cfg),
             (''X-Shopify-Access-Token'', accessToken cfg)]
          else [(''Content-Type'', ''application/json'')])"

definition default_options :: RequestInit where
  "default_options = \<lparr>http_method = None, headers = [], body = None\<rparr>"

subsection \<open>request\<close>

text \<open>
  The \<^verbatim>\<open>try\<close> block of \<^verbatim>\<open>request\<close>, after the transport call. A non-2xx response
  throws \<^verbatim>\<open>new Error(error.detail || `API error: ${response.status}`)\<close>, where
  \<^verbatim>\<open>error\<close> is the parsed body, or \<^verbatim>\<open>{ detail: "Unknown error" }\<close> when parsing
  rejects. On a 2xx response the promise \<^verbatim>\<open>response.json()\<close> is returned without
  \<^verbatim>\<open>await\<close>: its rejection does not pass through the \<^verbatim>\<open>catch\<close> block.
\<close>

fun request_try :: "fetch_outcome \<Rightarrow> (js_thrown + json) completion" where
  "request_try (Rejects e) = Thrown e"
| "request_try (Resolves response) =
     (if \<not> ok response then
        (let err = (case json_result response of
                      Inl _ \<Rightarrow> JObj [(''detail'', JStr ''Unknown error'')]
                    | Inr j \<Rightarrow> j)
         in case get_prop err ''detail'' of
              Inl e \<Rightarrow> Thrown e
            | Inr detail \<Rightarrow>
                Thrown (new_Error (js_or detail (JStr (''API error: '' @ String_nat (status response))))))
      else Returned (json_result response))"

definition isRetryable :: "js_thrown \<Rightarrow> bool" where
  "isRetryable err =
     (case err of
        ErrorObj name message \<Rightarrow>
          name = ''AbortError'' \<or> str_includes message ''fetch'' \<or> str_includes message ''5''
      | NonError _ \<Rightarrow> False)"

text \<open>
  \<^verbatim>\<open>RETRY_DELAYS[retryCount]\<close>; out of range the value is \<^verbatim>\<open>undefined\<close>, which
  \<^verbatim>\<open>setTimeout\<close> takes as 0.
\<close>

definition RETRY_DELAYS_at :: "nat \<Rightarrow> nat" where
  "RETRY_DELAYS_at i = (if i < length RETRY_DELAYS then RETRY_DELAYS ! i else 0)"

function request ::
  "ApiClient \<Rightarrow> environment \<Rightarrow> string \<Rightarrow> RequestInit \<Rightarrow> nat \<Rightarrow> state \<Rightarrow> (js_thrown + json) \<times> state" where
  "request c env endpoint options retryCount st =
     (case fetchWithTimeout env (baseUrl c @ endpoint)
             (options\<lparr>headers := spread (getHeaders c) (headers options)\<rparr>)
             REQUEST_TIMEOUT_MS st of
        (r, st1) \<Rightarrow>
          (case request_try r of
             Returned p \<Rightarrow> (p, st1)
           | Thrown err \<Rightarrow>
               if retryCount < MAX_RETRIES then
                 if isRetryable err then
                   request c env endpoint options (retryCount + 1)
                     (sleep (RETRY_DELAYS_at retryCount) st1)
                 else (Inl err, st1)
               else (Inl err, st1)))"
  by pat_completeness auto
termination
  by (relation "measure (\<lambda>(c, env, endpoint, options, retryCount, st). MAX_RETRIES - retryCount)")
     auto

declare request.simps [simp del]

subsection \<open>checkHealth\<close>

text \<open>
  The \<^verbatim>\<open>try\<close> block of \<^verbatim>\<open>checkHealth\<close> after the probe: the status it builds, or
  what it throws (\<^verbatim>\<open>fetch\<close> or \<^verbatim>\<open>response.json()\<close> rejecting, or a property read
  on \<^verbatim>\<open>null\<close>). \<open>now\<close> is the value of \<^verbatim>\<open>new Date()\<close>.
\<close>

definition checkHealth_try :: "fetch_outcome \<Rightarrow> int \<Rightarrow> HealthStatus completion" where
  "checkHealth_try r now =
     (case r of
        Rejects e \<Rightarrow> Thrown e
      | Resolves response \<Rightarrow>
          if ok response then
            (case json_result response of
               Inl e \<Rightarrow> Thrown e
             | Inr data \<Rightarrow>
                 (case get_prop data ''status'' of
                    Inl e \<Rightarrow> Thrown e
                  | Inr s \<Rightarrow>
                      (case get_prop data ''version'' of
                         Inl e \<Rightarrow> Thrown e
                       | Inr v \<Rightarrow>
                           Returned \<lparr>healthy = (s = Some (JStr ''healthy'')),
                                     version = js_or v (JStr ''unknown''),
                                     timestamp = now,
                                     error = None\<rparr>)))
          else
            Returned \<lparr>healthy = False,
                      version = JStr ''unknown'',
                      timestamp = now,
                      error = Some (''HTTP '' @ String_nat (status response))\<rparr>)"

text \<open>The \<^verbatim>\<open>catch\<close> block: \<^verbatim>\<open>error instanceof Error ? error.message : "Unknown error"\<close>.\<close>

definition checkHealth_catch :: "js_thrown \<Rightarrow> int \<Rightarrow> HealthStatus" where
  "checkHealth_catch err now =
     \<lparr>healthy = False,
      version = JStr ''unknown'',
      timestamp = now,
      error = Some (case err of ErrorObj name message \<Rightarrow> message | NonError _ \<Rightarrow> ''Unknown error'')\<rparr>"

definition cache_valid :: "state \<Rightarrow> bool" where
  "cache_valid st =
     (case healthCache st of
        None \<Rightarrow> False
      | Some cached \<Rightarrow> clock st - timestamp cached < HEALTH_CHECK_CACHE_MS)"

definition checkHealth :: "ApiClient \<Rightarrow> environment \<Rightarrow> state \<Rightarrow> HealthStatus completion \<times> state" where
  "checkHealth c env st =
     (case (if cache_valid st then healthCache st else None) of
        Some cached \<Rightarrow> (Returned cached, st)
      | None \<Rightarrow>
          (case fetchWithTimeout env (baseUrl c @ ''/health'')
                  \<lparr>http_method = Some ''GET'', headers = [], body = None\<rparr> 5000 st of
             (r, st1) \<Rightarrow>
               (let h = (case checkHealth_try r (clock st1) of
                           Returned h \<Rightarrow> h
                         | Thrown err \<Rightarrow> checkHealth_catch err (clock st1))
                in (Returned h, st1\<lparr>healthCache := Some h\<rparr>))))"

subsection \<open>Shop endpoints and resolveShopId\<close>



text \<open>\<^verbatim>\<open>(await p).id\<close> for the settled promise \<open>p\<close> of a shop.\<close>

definition shop_id :: "js_thrown + json \<Rightarrow> js_thrown + json option" where
  "shop_id p = (case p of Inl e \<Rightarrow> Inl e | Inr shop \<Rightarrow> get_prop shop ''id'')"



subsection \<open>getInsights\<close>

text \<open>
  \<^verbatim>\<open>URLSearchParams\<close> is an ordered list of name-value pairs. \<^verbatim>\<open>set\<close> overwrites
  the first pair of that name and removes the others, or appends a new pair. The string
  form is the application/x-www-form-urlencoded serialisation, on the UTF-8 bytes.
\<close>

type_synonym URLSearchParams = "(string \<times> string) list"

fun searchParams_set :: "string \<Rightarrow> string \<Rightarrow> URLSearchParams \<Rightarrow> URLSearchParams" where
  "searchParams_set k v [] = [(k, v)]"
| "searchParams_set k v ((k', v') # ps) =
     (if k' = k then (k, v) # filter (\<lambda>(k'', _). k'' \<noteq> k) ps
      else (k', v') # searchParams_set k v ps)"

definition hex_digit :: "nat \<Rightarrow> char" where
  "hex_digit d = ''0123456789ABCDEF'' ! d"

definition urlencoded_safe :: "char \<Rightarrow> bool" where
  "urlencoded_safe ch =
     (ch \<in> set (''ABCDEFGHIJKLMNOPQRSTUVWXYZ'' @ ''abcdefghijklmnopqrstuvwxyz'' @
                ''0123456789'' @ ''*-._''))"

definition urlencode_char :: "char \<Rightarrow> string" where
  "urlencode_char ch =
     (if ch = CHR '' '' then ''+''
      else if urlencoded_safe ch then [ch]
      else [CHR ''%'', hex_digit ((of_char ch :: nat) div 16), hex_digit ((of_char ch :: nat) mod 16)])"

definition urlencode :: "string \<Rightarrow> string" where
  "urlencode s = concat (map urlencode_char s)"

definition searchParams_toString :: "URLSearchParams \<Rightarrow> string" where
  "searchParams_toString ps = join ''&'' (map (\<lambda>(k, v). urlencode k @ ''='' @ urlencode v) ps)"

text \<open>
  The optional \<^verbatim>\<open>params\<close> object of \<^verbatim>\<open>getInsights\<close>: an absent field is \<open>None\<close>.
  The page numbers are modelled as integers in the safe range.
\<close>

record InsightParams =
  page :: "int option"
  pageSize :: "int option"
  type :: "string option"
  severity :: "string option"
  includeDismissed :: "bool option"

text \<open>\<^verbatim>\<open>if (x) searchParams.set(k, f(x))\<close>, for an optional \<open>x\<close> with the given truthiness.\<close>

definition set_if :: "('a \<Rightarrow> bool) \<Rightarrow> 'a option \<Rightarrow> string \<Rightarrow> ('a \<Rightarrow> string) \<Rightarrow> URLSearchParams \<Rightarrow> URLSearchParams" where
  "set_if truthy_of x k f ps =
     (case x of
        None \<Rightarrow> ps
      | Some a \<Rightarrow> if truthy_of a then searchParams_set k (f a) ps else ps)"

definition getInsights_searchParams :: "string \<Rightarrow> InsightParams option \<Rightarrow> URLSearchParams" where
  "getInsights_searchParams sid params =
     (let sp0 = [(''shop_id'', sid)];
          sp1 = set_if (\<lambda>n. n \<noteq> 0) (Option.bind params page) ''page'' String_int sp0;
          sp2 = set_if (\<lambda>n. n \<noteq> 0) (Option.bind params pageSize) ''page_size'' String_int sp1;
          sp3 = set_if (\<lambda>s. s \<noteq> []) (Option.bind params type) ''type'' (\<lambda>s. s) sp2;
          sp4 = set_if (\<lambda>s. s \<noteq> []) (Option.bind params severity) ''severity'' (\<lambda>s. s) sp3;
          sp5 = set_if (\<lambda>b. b) (Option.bind params includeDismissed) ''include_dismissed''
                  (\<lambda>_. ''true'') sp4
      in sp5)"

definition getInsights_endpoint :: "string \<Rightarrow> InsightParams option \<Rightarrow> string" where
  "getInsights_endpoint sid params =
     ''/api/insights?'' @ searchParams_toString (getInsights_searchParams sid params)"

definition getInsights ::
  "ApiClient \<Rightarrow> environment \<Rightarrow> string \<Rightarrow> InsightParams option \<Rightarrow> state \<Rightarrow> (js_thrown + json) \<times> state" where
  "getInsights c env sid params st =
     request c env (getInsights_endpoint sid params) default_options 0 st"

subsection \<open>Notions used in the statements, and example inputs\<close>

text \<open>The call of \<^verbatim>\<open>fetch\<close> that \<^verbatim>\<open>request\<close> issues on every attempt.\<close>

definition request_call :: "ApiClient \<Rightarrow> string \<Rightarrow> RequestInit \<Rightarrow> fetch_call" where
  "request_call c endpoint options =
     \<lparr>url = baseUrl c @ endpoint,
      init = options\<lparr>headers := spread (getHeaders c) (headers options)\<rparr>,
      timeoutMs = REQUEST_TIMEOUT_MS\<rparr>"

text \<open>How one attempt of \<^verbatim>\<open>request\<close> ends when it is the last one: the settled
  promise of the \<^verbatim>\<open>try\<close> block, or the error it throws.\<close>

definition attempt_result :: "fetch_outcome \<Rightarrow> js_thrown + json" where
  "attempt_result r = (case request_try r of Returned p \<Rightarrow> p | Thrown e \<Rightarrow> Inl e)"

text \<open>The state after the transport call of one attempt.\<close>

definition after_fetch :: "ApiClient \<Rightarrow> environment \<Rightarrow> string \<Rightarrow> RequestInit \<Rightarrow> state \<Rightarrow> state" where
  "after_fetch c env endpoint options st =
     snd (fetchWithTimeout env (baseUrl c @ endpoint)
            (options\<lparr>headers := spread (getHeaders c) (headers options)\<rparr>) REQUEST_TIMEOUT_MS st)"

text \<open>Example inputs: a configured client, the state of a fresh process, and environments
  whose network always answers the same way.\<close>

definition example_client :: ApiClient where
  "example_client =
     \<lparr>baseUrl = ''https://ecomdash-api.onrender.com'',
      config = Some \<lparr>shopId = ''acme.myshopify.com'', accessToken = ''shpat_1''\<rparr>\<rparr>"

definition initial_state :: state where
  "initial_state = \<lparr>healthCache = None, clock = 0, fetches = [], sleeps = []\<rparr>"

definition env_of :: "(nat \<Rightarrow> fetch_outcome) \<Rightarrow> environment" where
  "env_of f = \<lparr>fetch_result = f, fetch_elapsed = (\<lambda>_. 100), SCOPES = None\<rparr>"

definition network_down :: fetch_outcome where
  "network_down = Rejects (ErrorObj ''TypeError'' ''fetch failed'')"

definition http :: "nat \<Rightarrow> js_thrown + json \<Rightarrow> fetch_outcome" where
  "http code b = Resolves \<lparr>status = code, json_result = b\<rparr>"

text \<open>Three network failures, then an HTTP 503 with a \<^verbatim>\<open>detail\<close>.\<close>

definition flaky_then_503 :: "nat \<Rightarrow> fetch_outcome" where
  "flaky_then_503 n =
     (if n < 3 then network_down
      else http 503 (Inr (JObj [(''detail'', JStr ''Service Unavailable'')])))"

text \<open>The call of \<^verbatim>\<open>fetch\<close> that \<^verbatim>\<open>checkHealth\<close> issues as its probe.\<close>

definition health_probe :: "ApiClient \<Rightarrow> fetch_call" where
  "health_probe c =
     \<lparr>url = baseUrl c @ ''/health'',
      init = \<lparr>http_method = Some ''GET'', headers = [], body = None\<rparr>,
      timeoutMs = 5000\<rparr>"


text \<open>The status that \<^verbatim>\<open>checkHealth\<close> builds from a probe: the \<^verbatim>\<open>try\<close> block's, or
  the \<^verbatim>\<open>catch\<close> block's.\<close>

definition probe_status :: "fetch_outcome \<Rightarrow> int \<Rightarrow> HealthStatus" where
  "probe_status r now =
     (case checkHealth_try r now of
        Returned h \<Rightarrow> h
      | Thrown err \<Rightarrow> checkHealth_catch err now)"


text \<open>The parameters \<^verbatim>\<open>{ pageSize: 5, severity: "high" }\<close>.\<close>

definition pageSize5_high :: InsightParams where
  "pageSize5_high =
     \<lparr>page = None, pageSize = Some 5, type = None, severity = Some ''high'',
      includeDismissed = None\<rparr>"

text \<open>Example responses: a 502 and a 404 whose body is not JSON, a 422 whose
  \<^verbatim>\<open>detail\<close> is the number 1e21, a 404 with an empty object, a 404 with a \<^verbatim>\<open>detail\<close>.\<close>

definition bad_gateway_html :: Response where
  "bad_gateway_html =
     \<lparr>status = 502, json_result = Inl (ErrorObj ''SyntaxError'' ''Unexpected token <'')\<rparr>"







definition timed_out :: fetch_outcome where
  "timed_out = Rejects (ErrorObj ''AbortError'' ''This operation was aborted'')"

text \<open>Bodies of the health endpoint.\<close>

definition status_ok_body :: json where
  "status_ok_body = JObj [(''status'', JStr ''ok''), (''version'', JStr ''1.2.0'')]"

definition status_healthy_body :: json where
  "status_healthy_body = JObj [(''status'', JStr ''healthy''), (''version'', JStr ''1.2.0'')]"



section \<open>Properties\<close>

subsection \<open>The transport and one step of request\<close>

lemma fetchWithTimeout_fst [simp]:
  "fst (fetchWithTimeout env u options ms st) = fetch_result env (length (fetches st))"
  by (simp add: fetchWithTimeout_def Let_def)

lemma fetchWithTimeout_fetches [simp]:
  "fetches (snd (fetchWithTimeout env u options ms st)) =
     fetches st @ [\<lparr>url = u, init = options, timeoutMs = ms\<rparr>]"
  by (simp add: fetchWithTimeout_def Let_def)

lemma fetchWithTimeout_sleeps [simp]:
  "sleeps (snd (fetchWithTimeout env u options ms st)) = sleeps st"
  by (simp add: fetchWithTimeout_def Let_def)

lemma sleep_fetches [simp]: "fetches (sleep ms st) = fetches st"
  by (simp add: sleep_def)

lemma sleep_sleeps [simp]: "sleeps (sleep ms st) = sleeps st @ [ms]"
  by (simp add: sleep_def)

lemma after_fetch_fetches [simp]:
  "fetches (after_fetch c env endpoint options st) = fetches st @ [request_call c endpoint options]"
  by (simp add: after_fetch_def request_call_def)

lemma after_fetch_sleeps [simp]:
  "sleeps (after_fetch c env endpoint options st) = sleeps st"
  by (simp add: after_fetch_def)

lemma request_unfold:
  "request c env endpoint options k st =
     (case request_try (fetch_result env (length (fetches st))) of
        Returned p \<Rightarrow> (p, after_fetch c env endpoint options st)
      | Thrown err \<Rightarrow>
          if k < MAX_RETRIES \<and> isRetryable err then
            request c env endpoint options (Suc k)
              (sleep (RETRY_DELAYS_at k) (after_fetch c env endpoint options st))
          else (Inl err, after_fetch c env endpoint options st))"
  by (subst request.simps)
     (simp add: after_fetch_def split_beta split: completion.splits)

subsection \<open>The attempts of request\<close>

lemma request_trace:
  "\<exists>n. 1 \<le> n \<and> n \<le> Suc (MAX_RETRIES - k) \<and>
       fetches (snd (request c env endpoint options k st)) =
         fetches st @ replicate n (request_call c endpoint options) \<and>
       sleeps (snd (request c env endpoint options k st)) =
         sleeps st @ take (n - 1) (drop k RETRY_DELAYS)"
proof (induction c env endpoint options k st rule: request.induct)
  case (1 c env endpoint options k st)
  let ?r = "request_try (fetch_result env (length (fetches st)))"
  let ?st1 = "after_fetch c env endpoint options st"
  show ?case
  proof (cases "\<exists>err. ?r = Thrown err \<and> k < MAX_RETRIES \<and> isRetryable err")
    case False
    then have "snd (request c env endpoint options k st) = ?st1"
      by (subst request_unfold) (auto split: completion.splits)
    then show ?thesis
      by (intro exI [of _ 1]) simp
  next
    case True
    then obtain err where err: "?r = Thrown err" "k < MAX_RETRIES" "isRetryable err"
      by blast
    let ?st2 = "sleep (RETRY_DELAYS_at k) ?st1"
    have step: "request c env endpoint options k st = request c env endpoint options (Suc k) ?st2"
      using err by (subst request_unfold) simp
    have "fetchWithTimeout env (baseUrl c @ endpoint)
            (options\<lparr>headers := spread (getHeaders c) (headers options)\<rparr>) REQUEST_TIMEOUT_MS st
          = (fetch_result env (length (fetches st)), ?st1)"
      by (simp add: after_fetch_def prod_eq_iff)
    from "1.IH" [OF this [symmetric] err(1) err(2) err(3)]
    obtain n where n: "1 \<le> n" "n \<le> Suc (MAX_RETRIES - (k + 1))"
      "fetches (snd (request c env endpoint options (k + 1) ?st2)) =
         fetches ?st2 @ replicate n (request_call c endpoint options)"
      "sleeps (snd (request c env endpoint options (k + 1) ?st2)) =
         sleeps ?st2 @ take (n - 1) (drop (k + 1) RETRY_DELAYS)"
      by blast
    have k3: "k < length RETRY_DELAYS"
      using err(2) by (simp add: MAX_RETRIES_def RETRY_DELAYS_def)
    then have d: "drop k RETRY_DELAYS = RETRY_DELAYS_at k # drop (Suc k) RETRY_DELAYS"
      by (simp add: RETRY_DELAYS_at_def Cons_nth_drop_Suc)
    show ?thesis
    proof (intro exI [of _ "Suc n"] conjI)
      show "1 \<le> Suc n" by simp
      show "Suc n \<le> Suc (MAX_RETRIES - k)" using n(2) err(2) by simp
      show "fetches (snd (request c env endpoint options k st)) =
              fetches st @ replicate (Suc n) (request_call c endpoint options)"
        using n(3) by (simp add: step)
      show "sleeps (snd (request c env endpoint options k st)) =
              sleeps st @ take (Suc n - 1) (drop k RETRY_DELAYS)"
        using n(1) n(4) d by (cases n) (simp_all add: step)
    qed
  qed
qed

lemma request_trace_0:
  "\<exists>n. 1 \<le> n \<and> n \<le> 4 \<and>
       fetches (snd (request c env endpoint options 0 st)) =
         fetches st @ replicate n (request_call c endpoint options)"
  using request_trace [of 0 c env endpoint options st]
  by (auto simp: MAX_RETRIES_def)

lemma request_last_attempt:
  "fst (request c env endpoint options k st) =
     attempt_result (fetch_result env (length (fetches (snd (request c env endpoint options k st))) - 1))"
proof (induction c env endpoint options k st rule: request.induct)
  case (1 c env endpoint options k st)
  let ?r = "request_try (fetch_result env (length (fetches st)))"
  let ?st1 = "after_fetch c env endpoint options st"
  show ?case
  proof (cases "\<exists>err. ?r = Thrown err \<and> k < MAX_RETRIES \<and> isRetryable err")
    case False
    then have "request c env endpoint options k st =
        (attempt_result (fetch_result env (length (fetches st))), ?st1)"
      by (subst request_unfold) (auto simp: attempt_result_def split: completion.splits)
    then show ?thesis by simp
  next
    case True
    then obtain err where err: "?r = Thrown err" "k < MAX_RETRIES" "isRetryable err"
      by blast
    let ?st2 = "sleep (RETRY_DELAYS_at k) ?st1"
    have step: "request c env endpoint options k st = request c env endpoint options (Suc k) ?st2"
      using err by (subst request_unfold) simp
    have "fetchWithTimeout env (baseUrl c @ endpoint)
            (options\<lparr>headers := spread (getHeaders c) (headers options)\<rparr>) REQUEST_TIMEOUT_MS st
          = (fetch_result env (length (fetches st)), ?st1)"
      by (simp add: after_fetch_def prod_eq_iff)
    from "1.IH" [OF this [symmetric] err(1) err(2) err(3)]
    show ?thesis by (simp add: step)
  qed
qed

lemmas eval_defs =
  example_client_def initial_state_def env_of_def network_down_def http_def
  MAX_RETRIES_def RETRY_DELAYS_def RETRY_DELAYS_at_def REQUEST_TIMEOUT_MS_def
  isRetryable_def ok_def new_Error_def default_options_def

subsection \<open>Retry policy and backoff\<close>

text \<open>
  Claim C1: an HTTP 4xx failure is never retried. This fails on the code, which decides by
  \<^verbatim>\<open>error.message.includes("5")\<close>, commented \<^verbatim>\<open>// 5xx errors\<close>, so a 4xx is
  retried whenever its message contains the character 5: a 404 with the detail
  \<^verbatim>\<open>Insight 15 not found\<close>, or a 405 with the body \<^verbatim>\<open>{}\<close>, whose message is
  \<^verbatim>\<open>API error: 405\<close>. On a backend that always answers so, \<^verbatim>\<open>request\<close> makes 4
  attempts, sleeping 1000, 2000 and 4000, before it fails.
\<close>

theorem request_retries_http_4xx:
  "fst (request example_client
          (env_of (\<lambda>_. http 404 (Inr (JObj [(''detail'', JStr ''Insight 15 not found'')]))))
          ''/api/insights/15'' default_options 0 initial_state)
     = Inl (ErrorObj ''Error'' ''Insight 15 not found'') \<and>
   length (fetches (snd (request example_client
          (env_of (\<lambda>_. http 404 (Inr (JObj [(''detail'', JStr ''Insight 15 not found'')]))))
          ''/api/insights/15'' default_options 0 initial_state))) = 4 \<and>
   sleeps (snd (request example_client
          (env_of (\<lambda>_. http 404 (Inr (JObj [(''detail'', JStr ''Insight 15 not found'')]))))
          ''/api/insights/15'' default_options 0 initial_state)) = [1000, 2000, 4000] \<and>
   fst (request example_client (env_of (\<lambda>_. http 405 (Inr (JObj []))))
          ''/api/insights/15'' default_options 0 initial_state)
     = Inl (ErrorObj ''Error'' ''API error: 405'') \<and>
   length (fetches (snd (request example_client (env_of (\<lambda>_. http 405 (Inr (JObj []))))
          ''/api/insights/15'' default_options 0 initial_state))) = 4 \<and>
   sleeps (snd (request example_client (env_of (\<lambda>_. http 405 (Inr (JObj []))))
          ''/api/insights/15'' default_options 0 initial_state)) = [1000, 2000, 4000]"
  by (simp add: request_unfold eval_defs String_nat.simps digit_char_def)

text \<open>
  Claim C2. A call of \<^verbatim>\<open>request\<close> entered with retry counter \<open>k\<close> makes \<open>n\<close> attempts
  with \<open>1 \<le> n \<le> 1 + (MAX_RETRIES - k)\<close>, so at most 4 from the counter 0 and exactly one once
  the counter has reached 3: a retry happens only while the counter is below 3. Every attempt
  is the same call of \<^verbatim>\<open>fetch\<close>. The delays slept are, in order, the first \<open>n - 1\<close> entries
  of 1000, 2000, 4000 from position \<open>k\<close> on: from the counter 0, 1000 before the first retry,
  2000 before the second, 4000 before the third.
\<close>

theorem request_attempts_and_delays:
  "\<exists>n. 1 \<le> n \<and> n \<le> Suc (MAX_RETRIES - k) \<and> n \<le> 4 \<and>
       fetches (snd (request c env endpoint options k st)) =
         fetches st @ replicate n (request_call c endpoint options) \<and>
       sleeps (snd (request c env endpoint options k st)) =
         sleeps st @ take (n - 1) (drop k [1000, 2000, 4000])"
proof -
  obtain n where n: "1 \<le> n" "n \<le> Suc (MAX_RETRIES - k)"
      "fetches (snd (request c env endpoint options k st)) =
         fetches st @ replicate n (request_call c endpoint options)"
      "sleeps (snd (request c env endpoint options k st)) =
         sleeps st @ take (n - 1) (drop k RETRY_DELAYS)"
    using request_trace [of k c env endpoint options st] by blast
  from n(2) have "n \<le> 4" by (simp add: MAX_RETRIES_def)
  with n show ?thesis
    by (intro exI [of _ n]) (simp add: RETRY_DELAYS_def)
qed

text \<open>
  With the network down on every attempt, the call from counter 0 makes 4 attempts and sleeps
  1000, 2000 and 4000 between them.
\<close>

theorem request_attempts_and_delays_witness:
  "(\<exists>n. 1 \<le> n \<and> n \<le> 4 \<and>
       fetches (snd (request example_client (env_of (\<lambda>_. network_down)) ''/health'' default_options 0
                       initial_state)) =
         fetches initial_state @ replicate n (request_call example_client ''/health'' default_options) \<and>
       sleeps (snd (request example_client (env_of (\<lambda>_. network_down)) ''/health'' default_options 0
                      initial_state)) =
         sleeps initial_state @ take (n - 1) (drop 0 [1000, 2000, 4000])) \<and>
   length (fetches (snd (request example_client (env_of (\<lambda>_. network_down)) ''/health'' default_options 0
                           initial_state))) = 4 \<and>
   sleeps (snd (request example_client (env_of (\<lambda>_. network_down)) ''/health'' default_options 0
                  initial_state)) = [1000, 2000, 4000]"
proof -
  have a: "length (fetches (snd (request example_client (env_of (\<lambda>_. network_down)) ''/health''
                                   default_options 0 initial_state))) = 4"
    by (simp add: request_unfold eval_defs)
  have b: "sleeps (snd (request example_client (env_of (\<lambda>_. network_down)) ''/health'' default_options 0
                  initial_state)) = [1000, 2000, 4000]"
    by (simp add: request_unfold eval_defs)
  from request_attempts_and_delays
         [of 0 example_client "env_of (\<lambda>_. network_down)" "''/health''" default_options initial_state]
  have "\<exists>n. 1 \<le> n \<and> n \<le> 4 \<and>
       fetches (snd (request example_client (env_of (\<lambda>_. network_down)) ''/health'' default_options 0
                       initial_state)) =
         fetches initial_state @ replicate n (request_call example_client ''/health'' default_options) \<and>
       sleeps (snd (request example_client (env_of (\<lambda>_. network_down)) ''/health'' default_options 0
                      initial_state)) =
         sleeps initial_state @ take (n - 1) (drop 0 [1000, 2000, 4000])"
    by blast
  with a b show ?thesis by blast
qed

text \<open>
  Claim C3. When a call of \<^verbatim>\<open>request\<close> (retry counter 0) has made 4 attempts and the 4th
  attempt fails with the error \<open>e\<close>, the call fails with exactly \<open>e\<close>.
\<close>

theorem request_fails_with_last_error:
  assumes "length (fetches (snd (request c env endpoint options 0 st))) = length (fetches st) + 4"
    and "attempt_result (fetch_result env (length (fetches st) + 3)) = Inl e"
  shows "fst (request c env endpoint options 0 st) = Inl e"
proof -
  have "length (fetches (snd (request c env endpoint options 0 st))) - 1 = length (fetches st) + 3"
    using assms(1) by simp
  then have "fst (request c env endpoint options 0 st) =
      attempt_result (fetch_result env (length (fetches st) + 3))"
    using request_last_attempt [of c env endpoint options 0 st] by simp
  with assms(2) show ?thesis by simp
qed

text \<open>
  Three network failures followed by an HTTP 503 with the detail \<^verbatim>\<open>Service Unavailable\<close>:
  the call fails with the 4th attempt's error, not with the network error of the first three.
\<close>

theorem request_fails_with_last_error_witness:
  "length (fetches (snd (request example_client (env_of flaky_then_503) ''/api/dashboard/stats?shop_id=1''
       default_options 0 initial_state))) = length (fetches initial_state) + 4 \<and>
   attempt_result (fetch_result (env_of flaky_then_503) (length (fetches initial_state) + 3)) =
     Inl (ErrorObj ''Error'' ''Service Unavailable'') \<and>
   fst (request example_client (env_of flaky_then_503) ''/api/dashboard/stats?shop_id=1''
       default_options 0 initial_state) = Inl (ErrorObj ''Error'' ''Service Unavailable'')"
proof -
  have a: "length (fetches (snd (request example_client (env_of flaky_then_503) ''/api/dashboard/stats?shop_id=1''
       default_options 0 initial_state))) = length (fetches initial_state) + 4"
    by (simp add: request_unfold eval_defs flaky_then_503_def)
  have b: "attempt_result (fetch_result (env_of flaky_then_503) (length (fetches initial_state) + 3)) =
     Inl (ErrorObj ''Error'' ''Service Unavailable'')"
    by (simp add: attempt_result_def eval_defs flaky_then_503_def)
  from request_fails_with_last_error [OF a b] a b show ?thesis by simp
qed

subsection \<open>Error messages of non-2xx responses\<close>




subsection \<open>The health cache\<close>


lemma checkHealth_refresh:
  assumes "\<not> cache_valid st"
  shows "checkHealth c env st =
     (Returned (probe_status (fetch_result env (length (fetches st)))
                  (clock st + int (fetch_elapsed env (length (fetches st))))),
      st\<lparr>fetches := fetches st @ [health_probe c],
         clock := clock st + int (fetch_elapsed env (length (fetches st))),
         healthCache := Some (probe_status (fetch_result env (length (fetches st)))
                  (clock st + int (fetch_elapsed env (length (fetches st)))))\<rparr>)"
  using assms
  by (simp add: checkHealth_def fetchWithTimeout_def Let_def probe_status_def health_probe_def
           cong: completion.case_cong)






text \<open>
  Claim C6. \<^verbatim>\<open>checkHealth\<close> always returns a status. When it probes: a rejected \<^verbatim>\<open>fetch\<close>
  (the timer's abort, a network error) gives \<^verbatim>\<open>healthy = false\<close> with the error's message, or
  \<^verbatim>\<open>Unknown error\<close> for a thrown value that is no Error; a non-2xx response gives
  \<^verbatim>\<open>healthy = false\<close> with \<^verbatim>\<open>HTTP <status>\<close>; a 2xx response whose body does not parse gives
  \<^verbatim>\<open>healthy = false\<close> with the parser's message.
\<close>

theorem checkHealth_never_throws:
  "\<exists>h st'. checkHealth c env st = (Returned h, st') \<and>
     (\<not> cache_valid st \<longrightarrow>
        (\<forall>n m. fetch_result env (length (fetches st)) = Rejects (ErrorObj n m) \<longrightarrow>
           \<not> healthy h \<and> error h = Some m) \<and>
        (\<forall>v. fetch_result env (length (fetches st)) = Rejects (NonError v) \<longrightarrow>
           \<not> healthy h \<and> error h = Some ''Unknown error'') \<and>
        (\<forall>response. fetch_result env (length (fetches st)) = Resolves response \<and> \<not> ok response \<longrightarrow>
           \<not> healthy h \<and> error h = Some (''HTTP '' @ String_nat (status response))) \<and>
        (\<forall>response n m. fetch_result env (length (fetches st)) = Resolves response \<and> ok response \<and>
             json_result response = Inl (ErrorObj n m) \<longrightarrow>
           \<not> healthy h \<and> error h = Some m))"
proof (cases "cache_valid st")
  case True
  then show ?thesis
    by (auto simp: checkHealth_def cache_valid_def split: option.splits)
next
  case False
  let ?now = "clock st + int (fetch_elapsed env (length (fetches st)))"
  let ?r = "fetch_result env (length (fetches st))"
  have "\<forall>n m. ?r = Rejects (ErrorObj n m) \<longrightarrow>
           \<not> healthy (probe_status ?r ?now) \<and> error (probe_status ?r ?now) = Some m"
    by (simp add: probe_status_def checkHealth_try_def checkHealth_catch_def)
  moreover have "\<forall>v. ?r = Rejects (NonError v) \<longrightarrow>
           \<not> healthy (probe_status ?r ?now) \<and> error (probe_status ?r ?now) = Some ''Unknown error''"
    by (simp add: probe_status_def checkHealth_try_def checkHealth_catch_def)
  moreover have "\<forall>response. ?r = Resolves response \<and> \<not> ok response \<longrightarrow>
           \<not> healthy (probe_status ?r ?now) \<and>
           error (probe_status ?r ?now) = Some (''HTTP '' @ String_nat (status response))"
    by (simp add: probe_status_def checkHealth_try_def checkHealth_catch_def)
  moreover have "\<forall>response n m. ?r = Resolves response \<and> ok response \<and>
             json_result response = Inl (ErrorObj n m) \<longrightarrow>
           \<not> healthy (probe_status ?r ?now) \<and> error (probe_status ?r ?now) = Some m"
    by (simp add: probe_status_def checkHealth_try_def checkHealth_catch_def)
  ultimately show ?thesis
    using checkHealth_refresh [OF False, of c env] by blast
qed

text \<open>
  A probe that times out and a probe answered by a 502.
\<close>

theorem checkHealth_never_throws_witness:
  "\<not> cache_valid initial_state \<and>
   fetch_result (env_of (\<lambda>_. timed_out)) (length (fetches initial_state)) =
     Rejects (ErrorObj ''AbortError'' ''This operation was aborted'') \<and>
   (\<exists>h st'. checkHealth example_client (env_of (\<lambda>_. timed_out)) initial_state = (Returned h, st') \<and>
      \<not> healthy h \<and> error h = Some ''This operation was aborted'') \<and>
   fetch_result (env_of (\<lambda>_. Resolves bad_gateway_html)) (length (fetches initial_state)) =
     Resolves bad_gateway_html \<and>
   \<not> ok bad_gateway_html \<and>
   (\<exists>h st'. checkHealth example_client (env_of (\<lambda>_. Resolves bad_gateway_html)) initial_state =
        (Returned h, st') \<and>
      \<not> healthy h \<and> error h = Some ''HTTP 502'')"
proof -
  have a1: "\<not> cache_valid initial_state"
    by (simp add: cache_valid_def initial_state_def)
  have a2: "fetch_result (env_of (\<lambda>_. timed_out)) (length (fetches initial_state)) =
     Rejects (ErrorObj ''AbortError'' ''This operation was aborted'')"
    by (simp add: env_of_def timed_out_def)
  have a3: "\<exists>h st'. checkHealth example_client (env_of (\<lambda>_. timed_out)) initial_state = (Returned h, st') \<and>
      \<not> healthy h \<and> error h = Some ''This operation was aborted''"
    using checkHealth_never_throws [of example_client "env_of (\<lambda>_. timed_out)" initial_state] a1 a2
    by blast
  have b2: "fetch_result (env_of (\<lambda>_. Resolves bad_gateway_html)) (length (fetches initial_state)) =
     Resolves bad_gateway_html"
    by (simp add: env_of_def)
  have b3: "\<not> ok bad_gateway_html"
    by (simp add: ok_def bad_gateway_html_def)
  have b4: "''HTTP '' @ String_nat (status bad_gateway_html) = ''HTTP 502''"
    by (simp add: bad_gateway_html_def String_nat.simps digit_char_def)
  have b5: "\<exists>h st'. checkHealth example_client (env_of (\<lambda>_. Resolves bad_gateway_html)) initial_state =
        (Returned h, st') \<and>
      \<not> healthy h \<and> error h = Some (''HTTP '' @ String_nat (status bad_gateway_html))"
    using checkHealth_never_throws
            [of example_client "env_of (\<lambda>_. Resolves bad_gateway_html)" initial_state] a1 b2 b3
    by blast
  from a1 a2 a3 b2 b3 b5 show ?thesis
    unfolding b4 by blast
qed

text \<open>
  Claim C9. When \<^verbatim>\<open>checkHealth\<close> probes, the status it returns is healthy exactly when the
  response is 2xx, its body parses, and the body's \<^verbatim>\<open>status\<close> is the string
  \<^verbatim>\<open>healthy\<close>. A 2xx response whose body parses to a value other than \<^verbatim>\<open>null\<close>, with any
  other \<^verbatim>\<open>status\<close> or none, gives \<^verbatim>\<open>healthy = false\<close> with no error field.
\<close>

theorem checkHealth_healthy_iff:
  assumes "\<not> cache_valid st" and "checkHealth c env st = (Returned h, st')"
  shows "(healthy h \<longleftrightarrow>
           (\<exists>response data. fetch_result env (length (fetches st)) = Resolves response \<and>
              ok response \<and> json_result response = Inr data \<and>
              get_prop data ''status'' = Inr (Some (JStr ''healthy'')))) \<and>
         (\<forall>response data. fetch_result env (length (fetches st)) = Resolves response \<and>
              ok response \<and> json_result response = Inr data \<and> data \<noteq> JNull \<and>
              get_prop data ''status'' \<noteq> Inr (Some (JStr ''healthy'')) \<longrightarrow>
            \<not> healthy h \<and> error h = None)"
proof -
  let ?now = "clock st + int (fetch_elapsed env (length (fetches st)))"
  let ?r = "fetch_result env (length (fetches st))"
  have h: "h = probe_status ?r ?now"
    using assms by (simp add: checkHealth_refresh)
  have nonnull: "\<And>data p. data \<noteq> JNull \<Longrightarrow> \<exists>v. get_prop data p = Inr v"
    by (case_tac data) simp_all
  have null: "\<And>p. get_prop JNull p \<noteq> Inr (Some (JStr ''healthy''))"
    by simp
  show ?thesis
  proof (cases ?r)
    case (Rejects e)
    then show ?thesis
      by (simp add: h probe_status_def checkHealth_try_def checkHealth_catch_def)
  next
    case (Resolves response)
    show ?thesis
    proof (cases "ok response")
      case False
      with Resolves show ?thesis
        by (simp add: h probe_status_def checkHealth_try_def checkHealth_catch_def)
    next
      case True
      show ?thesis
      proof (cases "json_result response")
        case (Inl e)
        with True Resolves show ?thesis
          by (simp add: h probe_status_def checkHealth_try_def checkHealth_catch_def)
      next
        case (Inr data)
        show ?thesis
        proof (cases "data = JNull")
          case True
          with Inr \<open>ok response\<close> Resolves show ?thesis
            by (simp add: h probe_status_def checkHealth_try_def checkHealth_catch_def)
        next
          case False
          obtain s v where "get_prop data ''status'' = Inr s" "get_prop data ''version'' = Inr v"
            using nonnull [OF False] by blast
          with Inr \<open>ok response\<close> Resolves show ?thesis
            by (simp add: h probe_status_def checkHealth_try_def)
        qed
      qed
    qed
  qed
qed

text \<open>
  A 200 with the status \<^verbatim>\<open>ok\<close> is unhealthy with no error; a 200 with the status
  \<^verbatim>\<open>healthy\<close> is healthy.
\<close>

theorem checkHealth_healthy_iff_witness:
  "\<not> cache_valid initial_state \<and>
   ok \<lparr>status = 200, json_result = Inr status_ok_body\<rparr> \<and>
   status_ok_body \<noteq> JNull \<and>
   get_prop status_ok_body ''status'' \<noteq> Inr (Some (JStr ''healthy'')) \<and>
   \<not> healthy (probe_status (http 200 (Inr status_ok_body)) 100) \<and>
   error (probe_status (http 200 (Inr status_ok_body)) 100) = None \<and>
   get_prop status_healthy_body ''status'' = Inr (Some (JStr ''healthy'')) \<and>
   healthy (probe_status (http 200 (Inr status_healthy_body)) 100)"
proof -
  have a1: "\<not> cache_valid initial_state"
    by (simp add: cache_valid_def initial_state_def)
  have ok200: "\<And>b. ok \<lparr>status = 200, json_result = b\<rparr>"
    by (simp add: ok_def)
  have run: "\<And>b. checkHealth example_client (env_of (\<lambda>_. http 200 b)) initial_state =
      (Returned (probe_status (http 200 b) 100),
       snd (checkHealth example_client (env_of (\<lambda>_. http 200 b)) initial_state))"
    using checkHealth_refresh [OF a1, of example_client "env_of (\<lambda>_. http 200 b)" for b]
    by (simp add: env_of_def initial_state_def)
  have r: "\<And>b. fetch_result (env_of (\<lambda>_. http 200 b)) (length (fetches initial_state)) =
      Resolves \<lparr>status = 200, json_result = b\<rparr>"
    by (simp add: env_of_def http_def)
  have a2: "status_ok_body \<noteq> JNull"
    by (simp add: status_ok_body_def)
  have a3: "get_prop status_ok_body ''status'' \<noteq> Inr (Some (JStr ''healthy''))"
    by (simp add: status_ok_body_def)
  have a4: "\<not> healthy (probe_status (http 200 (Inr status_ok_body)) 100) \<and>
      error (probe_status (http 200 (Inr status_ok_body)) 100) = None"
    using checkHealth_healthy_iff [OF a1 run [of "Inr status_ok_body"]]
      r [of "Inr status_ok_body"] ok200 [of "Inr status_ok_body"] a2 a3
    by simp
  have b3: "get_prop status_healthy_body ''status'' = Inr (Some (JStr ''healthy''))"
    by (simp add: status_healthy_body_def)
  have b4: "healthy (probe_status (http 200 (Inr status_healthy_body)) 100)"
    using checkHealth_healthy_iff [OF a1 run [of "Inr status_healthy_body"]]
      r [of "Inr status_healthy_body"] ok200 [of "Inr status_healthy_body"] b3
    by simp
  from a1 ok200 a2 a3 a4 b3 b4 show ?thesis by simp
qed

subsection \<open>Resolving a shop\<close>



subsection \<open>The query string of getInsights\<close>

lemma String_int_5: "String_int 5 = ''5''"
  by (simp add: String_int_def String_nat.simps digit_char_def)

lemma urlencode_append: "urlencode (a @ b) = urlencode a @ urlencode b"
  by (simp add: urlencode_def)

text \<open>
  Claim C8. For \<^verbatim>\<open>{ pageSize: 5, severity: "high" }\<close> the search parameters are exactly
  \<^verbatim>\<open>shop_id\<close>, \<^verbatim>\<open>page_size=5\<close> and \<^verbatim>\<open>severity=high\<close>, in this order; the endpoint is
  \<^verbatim>\<open>/api/insights?shop_id=<id>&page_size=5&severity=high\<close> with the id url-encoded, and this
  is the URL of every call of \<^verbatim>\<open>fetch\<close> that \<^verbatim>\<open>getInsights\<close> makes. No \<^verbatim>\<open>type\<close>,
  \<^verbatim>\<open>page\<close> or \<^verbatim>\<open>include_dismissed\<close> appears.
\<close>

theorem getInsights_pageSize_severity_query:
  "getInsights_searchParams sid (Some pageSize5_high) =
     [(''shop_id'', sid), (''page_size'', ''5''), (''severity'', ''high'')] \<and>
   getInsights_endpoint sid (Some pageSize5_high) =
     ''/api/insights?shop_id='' @ urlencode sid @ ''&page_size=5&severity=high'' \<and>
   (\<exists>n. 1 \<le> n \<and> n \<le> 4 \<and>
      fetches (snd (getInsights c env sid (Some pageSize5_high) st)) =
        fetches st @
          replicate n
            (request_call c (''/api/insights?shop_id='' @ urlencode sid @ ''&page_size=5&severity=high'')
               default_options))"
proof -
  have sp: "getInsights_searchParams sid (Some pageSize5_high) =
     [(''shop_id'', sid), (''page_size'', ''5''), (''severity'', ''high'')]"
    by (simp add: getInsights_searchParams_def pageSize5_high_def set_if_def String_int_5)
  have ep: "getInsights_endpoint sid (Some pageSize5_high) =
     ''/api/insights?shop_id='' @ urlencode sid @ ''&page_size=5&severity=high''"
    by (simp add: getInsights_endpoint_def sp searchParams_toString_def urlencode_append)
       (simp add: urlencode_def urlencode_char_def urlencoded_safe_def)
  show ?thesis
    using request_trace_0 [of c env "getInsights_endpoint sid (Some pageSize5_high)" default_options st]
    by (simp add: sp getInsights_def ep)
qed

text \<open>
  The endpoint for the shop \<^verbatim>\<open>shop-uuid-1\<close>.
\<close>

theorem getInsights_pageSize_severity_query_witness:
  "getInsights_searchParams ''shop-uuid-1'' (Some pageSize5_high) =
     [(''shop_id'', ''shop-uuid-1''), (''page_size'', ''5''), (''severity'', ''high'')] \<and>
   getInsights_endpoint ''shop-uuid-1'' (Some pageSize5_high) =
     ''/api/insights?shop_id=shop-uuid-1&page_size=5&severity=high''"
proof -
  have "urlencode ''shop-uuid-1'' = ''shop-uuid-1''"
    by (simp add: urlencode_def urlencode_char_def urlencoded_safe_def)
  then show ?thesis
    using getInsights_pageSize_severity_query
            [of "''shop-uuid-1''" example_client "env_of (\<lambda>_. network_down)" initial_state]
    by simp
qed

lemma String_nat_nonempty: "String_nat n \<noteq> []"
  by (subst String_nat.simps) simp

lemma digit_char_0: "n < 10 \<Longrightarrow> digit_char n = CHR ''0'' \<Longrightarrow> n = 0"
  by (auto simp: digit_char_def nth_Cons split: nat.splits)

lemma String_nat_0: "String_nat n = ''0'' \<Longrightarrow> n = 0"
proof (cases "n < 10")
  case True
  assume "String_nat n = ''0''"
  with True have "digit_char n = CHR ''0''"
    by (subst (asm) String_nat.simps) simp
  with True show ?thesis by (rule digit_char_0)
next
  case False
  assume "String_nat n = ''0''"
  with False have "String_nat (n div 10) @ [digit_char (n mod 10)] = ''0''"
    by (subst (asm) String_nat.simps) simp
  then have "String_nat (n div 10) = []"
    by (simp add: append_eq_Cons_conv)
  then show ?thesis by (simp add: String_nat_nonempty)
qed

lemma String_int_0: "String_int i = ''0'' \<Longrightarrow> i = 0"
  by (auto simp: String_int_def dest: String_nat_0 split: if_splits)

lemma map_of_filter_other:
  "k' \<noteq> k \<Longrightarrow> map_of (filter (\<lambda>(k'', _). k'' \<noteq> k) ps) k' = map_of ps k'"
  by (induction ps) auto

lemma map_of_searchParams_set:
  "map_of (searchParams_set k v ps) k' = (if k' = k then Some v else map_of ps k')"
  by (induction ps) (auto simp: map_of_filter_other)

lemma map_of_set_if:
  "map_of (set_if t x k f ps) k' =
     (case x of
        None \<Rightarrow> map_of ps k'
      | Some a \<Rightarrow> if t a \<and> k' = k then Some (f a) else map_of ps k')"
  by (simp add: set_if_def map_of_searchParams_set split: option.splits)

text \<open>
  Claim C10. \<^verbatim>\<open>page: 0\<close>, \<^verbatim>\<open>pageSize: 0\<close> and \<^verbatim>\<open>includeDismissed: false\<close> give the same
  endpoint, and the same run of \<^verbatim>\<open>getInsights\<close>, as leaving the parameter out. For all
  parameters, \<^verbatim>\<open>page\<close> is never sent as \<^verbatim>\<open>0\<close>, and \<^verbatim>\<open>include_dismissed\<close> is absent or
  \<^verbatim>\<open>true\<close>.
\<close>

theorem getInsights_falsy_params_dropped:
  "getInsights c env sid (Some (p\<lparr>page := Some 0\<rparr>)) st =
     getInsights c env sid (Some (p\<lparr>page := None\<rparr>)) st \<and>
   getInsights c env sid (Some (p\<lparr>pageSize := Some 0\<rparr>)) st =
     getInsights c env sid (Some (p\<lparr>pageSize := None\<rparr>)) st \<and>
   getInsights c env sid (Some (p\<lparr>includeDismissed := Some False\<rparr>)) st =
     getInsights c env sid (Some (p\<lparr>includeDismissed := None\<rparr>)) st \<and>
   getInsights_endpoint sid (Some (p\<lparr>page := Some 0\<rparr>)) =
     getInsights_endpoint sid (Some (p\<lparr>page := None\<rparr>)) \<and>
   getInsights_endpoint sid (Some (p\<lparr>pageSize := Some 0\<rparr>)) =
     getInsights_endpoint sid (Some (p\<lparr>pageSize := None\<rparr>)) \<and>
   getInsights_endpoint sid (Some (p\<lparr>includeDismissed := Some False\<rparr>)) =
     getInsights_endpoint sid (Some (p\<lparr>includeDismissed := None\<rparr>)) \<and>
   map_of (getInsights_searchParams sid params) ''page'' \<noteq> Some ''0'' \<and>
   (map_of (getInsights_searchParams sid params) ''include_dismissed'' = None \<or>
    map_of (getInsights_searchParams sid params) ''include_dismissed'' = Some ''true'')"
proof -
  have e1: "getInsights_endpoint sid (Some (p\<lparr>page := Some 0\<rparr>)) =
     getInsights_endpoint sid (Some (p\<lparr>page := None\<rparr>))"
    by (simp add: getInsights_endpoint_def getInsights_searchParams_def set_if_def)
  have e2: "getInsights_endpoint sid (Some (p\<lparr>pageSize := Some 0\<rparr>)) =
     getInsights_endpoint sid (Some (p\<lparr>pageSize := None\<rparr>))"
    by (simp add: getInsights_endpoint_def getInsights_searchParams_def set_if_def)
  have e3: "getInsights_endpoint sid (Some (p\<lparr>includeDismissed := Some False\<rparr>)) =
     getInsights_endpoint sid (Some (p\<lparr>includeDismissed := None\<rparr>))"
    by (simp add: getInsights_endpoint_def getInsights_searchParams_def set_if_def)
  have m1: "map_of (getInsights_searchParams sid params) ''page'' \<noteq> Some ''0''"
    by (auto simp: getInsights_searchParams_def Let_def map_of_set_if
             dest: String_int_0 split: option.splits if_splits)
  have m2: "map_of (getInsights_searchParams sid params) ''include_dismissed'' = None \<or>
    map_of (getInsights_searchParams sid params) ''include_dismissed'' = Some ''true''"
    by (simp add: getInsights_searchParams_def Let_def map_of_set_if split: option.splits)
  show ?thesis
    using e1 e2 e3 m1 m2 by (simp add: getInsights_def)
qed

text \<open>
  The equalities at \<^verbatim>\<open>{ pageSize: 5, severity: "high" }\<close> with the falsy value added.
\<close>

theorem getInsights_falsy_params_dropped_witness:
  "getInsights_endpoint ''shop-uuid-1'' (Some (pageSize5_high\<lparr>page := Some 0\<rparr>)) =
     getInsights_endpoint ''shop-uuid-1'' (Some (pageSize5_high\<lparr>page := None\<rparr>)) \<and>
   getInsights_endpoint ''shop-uuid-1'' (Some (pageSize5_high\<lparr>pageSize := Some 0\<rparr>)) =
     getInsights_endpoint ''shop-uuid-1'' (Some (pageSize5_high\<lparr>pageSize := None\<rparr>)) \<and>
   getInsights_endpoint ''shop-uuid-1'' (Some (pageSize5_high\<lparr>includeDismissed := Some False\<rparr>)) =
     getInsights_endpoint ''shop-uuid-1'' (Some (pageSize5_high\<lparr>includeDismissed := None\<rparr>)) \<and>
   map_of (getInsights_searchParams ''shop-uuid-1'' (Some (pageSize5_high\<lparr>page := Some 0\<rparr>))) ''page''
     \<noteq> Some ''0''"
  using getInsights_falsy_params_dropped
          [of example_client "env_of (\<lambda>_. network_down)" "''shop-uuid-1''" pageSize5_high initial_state
              "Some (pageSize5_high\<lparr>page := Some 0\<rparr>)"]
  by blast

end
